theory Spec2Isabelle
  imports Complex_Main "HOL-Library.AList" "HOL-Library.Sublist"
begin

section \<open>Site build configuration (eleventy.config.js)\<close>

text \<open>
  The repository holds three revisions of \<^verbatim>\<open>eleventy.config.js\<close>. Each exports a
  function that registers passthrough-copy globs on the generator object it is handed and
  returns a configuration object. The generator object is modelled by the list of globs it
  has been given so far; the returned object is a record.
\<close>

record dir_config =
  dir_input :: string
  dir_includes :: string
  dir_layouts :: string
  dir_output :: string

record build_config =
  dir :: dir_config
  templateFormats :: "string list"
  pathPrefix :: "string option"

type_synonym eleventy_config = "string list"

definition addPassthroughCopy :: "string \<Rightarrow> eleventy_config \<Rightarrow> eleventy_config" where
  "addPassthroughCopy glob ec = ec @ [glob]"

definition dir_literal :: dir_config where
  "dir_literal =
     \<lparr>dir_input = ''src'', dir_includes = ''_includes'',
      dir_layouts = ''_includes/layouts'', dir_output = ''_site''\<rparr>"

text \<open>First revision: \<^verbatim>\<open>src/eleventy.config.js\<close>, lines 1 to 12.\<close>

definition config_v1 :: "eleventy_config \<Rightarrow> eleventy_config \<times> build_config" where
  "config_v1 ec =
     (addPassthroughCopy ''src/style.css'' ec,
      \<lparr>dir = \<lparr>dir_input = ''src'', dir_includes = ''_includes'',
              dir_layouts = ''_includes/layouts'',
              dir_output = ''_site''\<rparr>,
       templateFormats = [''njk'', ''md'', ''html''],
       pathPrefix = None\<rparr>)"

text \<open>Second revision: \<^verbatim>\<open>src/eleventy.config.js\<close>, lines 13 to 26.\<close>

definition config_v2 :: "eleventy_config \<Rightarrow> eleventy_config \<times> build_config" where
  "config_v2 ec =
     (addPassthroughCopy ''src/*.png'' (addPassthroughCopy ''src/style.css'' ec),
      \<lparr>dir = \<lparr>dir_input = ''src'', dir_includes = ''_includes'',
              dir_layouts = ''_includes/layouts'',
              dir_output = ''_site''\<rparr>,
       templateFormats = [''njk'', ''md'', ''html''],
       pathPrefix = Some ''/bridget-portfolio/''\<rparr>)"

text \<open>Third revision: \<^verbatim>\<open>src/unnamed/part_000\<close>, lines 1 to 14.\<close>

definition config_v3 :: "eleventy_config \<Rightarrow> eleventy_config \<times> build_config" where
  "config_v3 ec =
     (addPassthroughCopy ''src/CNAME''
        (addPassthroughCopy ''src/*.png'' (addPassthroughCopy ''src/style.css'' ec)),
      \<lparr>dir = \<lparr>dir_input = ''src'', dir_includes = ''_includes'',
              dir_layouts = ''_includes/layouts'',
              dir_output = ''_site''\<rparr>,
       templateFormats = [''njk'', ''md'', ''html''],
       pathPrefix = None\<rparr>)"

subsection \<open>Paths\<close>

text \<open>
  A path is split at \<^verbatim>\<open>/\<close> into its segments. A path is relative when it is not empty
  and does not start with \<^verbatim>\<open>/\<close>; it stays inside the directory it is resolved against
  when none of its segments is \<^verbatim>\<open>..\<close>. The generator resolves the includes and the
  layouts directory by joining them to the input directory.
\<close>

fun segments_from :: "string \<Rightarrow> string \<Rightarrow> string list" where
  "segments_from acc [] = [rev acc]"
| "segments_from acc (c # cs) =
     (if c = CHR ''/'' then rev acc # segments_from [] cs else segments_from (c # acc) cs)"

definition segments :: "string \<Rightarrow> string list" where
  "segments p = segments_from [] p"

definition is_relative :: "string \<Rightarrow> bool" where
  "is_relative p = (case p of [] \<Rightarrow> False | c # _ \<Rightarrow> c \<noteq> CHR ''/'')"

definition stays_inside :: "string \<Rightarrow> bool" where
  "stays_inside p = (''..'' \<notin> set (segments p))"

definition join_path :: "string \<Rightarrow> string \<Rightarrow> string" where
  "join_path base p = base @ ''/'' @ p"

definition subdir_of :: "string \<Rightarrow> string \<Rightarrow> bool" where
  "subdir_of base p = (strict_prefix (segments base) (segments p) \<and> stays_inside p)"

definition dirs_relative_to_input :: "build_config \<Rightarrow> bool" where
  "dirs_relative_to_input c =
     (let d = dir c in
      is_relative (dir_includes d) \<and> is_relative (dir_layouts d) \<and>
      subdir_of (dir_includes d) (dir_layouts d) \<and>
      subdir_of (dir_input d) (join_path (dir_input d) (dir_includes d)) \<and>
      subdir_of (dir_input d) (join_path (dir_input d) (dir_layouts d)) \<and>
      subdir_of (join_path (dir_input d) (dir_includes d))
        (join_path (dir_input d) (dir_layouts d)))"

section \<open>Command registration: the node program of the bootstrap script\<close>

text \<open>
  Step 7 of the bootstrap script (\<^verbatim>\<open>src/unnamed/part_000\<close>, lines 132 to 158) pipes a
  JavaScript program into \<^verbatim>\<open>node\<close>. The program parses \<^verbatim>\<open>package.json\<close>, assigns to
  properties of the parsed value and writes the value back with \<^verbatim>\<open>JSON.stringify\<close>.

  A JavaScript value as the program can hold it: the six kinds of JSON value. Objects are
  association lists in insertion order. An array is an object too, so besides its elements
  it carries the named properties that have been assigned to it; \<^verbatim>\<open>JSON.parse\<close> produces
  arrays without named properties and \<^verbatim>\<open>JSON.stringify\<close> does not write them. Numbers
  are carried as exact rationals: the program only ever asks whether a number is zero, and
  the rounding of doubles is not modelled. \<^verbatim>\<open>undefined\<close> is \<open>None\<close> of
  \<open>json option\<close>.
\<close>

datatype json =
    JNull
  | JBool bool
  | JNum rat
  | JStr string
  | JArr "json list" "(string \<times> json) list"
  | JObj "(string \<times> json) list"

datatype js_error = TypeError

text \<open>
  JavaScript truthiness, as \<^verbatim>\<open>!x\<close> and \<^verbatim>\<open>x || y\<close> test it: \<^verbatim>\<open>null\<close>, \<^verbatim>\<open>false\<close>,
  \<^verbatim>\<open>0\<close>, the empty string and \<^verbatim>\<open>undefined\<close> are falsy, every object and array is
  truthy.
\<close>

fun truthy :: "json \<Rightarrow> bool" where
  "truthy JNull = False"
| "truthy (JBool b) = b"
| "truthy (JNum n) = (n \<noteq> 0)"
| "truthy (JStr s) = (s \<noteq> [])"
| "truthy (JArr xs ps) = True"
| "truthy (JObj kvs) = True"

definition or_else :: "json option \<Rightarrow> json \<Rightarrow> json" where
  "or_else a b = (case a of None \<Rightarrow> b | Some v \<Rightarrow> if truthy v then v else b)"

definition js_not :: "json option \<Rightarrow> bool" where
  "js_not a = (case a of None \<Rightarrow> True | Some v \<Rightarrow> \<not> truthy v)"

text \<open>
  Reading and assigning a named property, for the names the program uses (\<^verbatim>\<open>scripts\<close> and
  the ten aliases; none of them is an array index, \<^verbatim>\<open>length\<close> or a member of a
  prototype). Reading a property of \<^verbatim>\<open>null\<close> or \<^verbatim>\<open>undefined\<close> throws a TypeError;
  reading one of a boolean, number or string gives \<^verbatim>\<open>undefined\<close>. The program is fed
  to node on standard input and so runs as a sloppy-mode script, where an assignment to a
  property of a primitive is silently dropped.
\<close>

fun get_prop :: "json \<Rightarrow> string \<Rightarrow> js_error + json option" where
  "get_prop JNull k = Inl TypeError"
| "get_prop (JObj kvs) k = Inr (map_of kvs k)"
| "get_prop (JArr xs ps) k = Inr (map_of ps k)"
| "get_prop (JBool b) k = Inr None"
| "get_prop (JNum n) k = Inr None"
| "get_prop (JStr s) k = Inr None"

fun set_prop :: "json \<Rightarrow> string \<Rightarrow> json \<Rightarrow> js_error + json" where
  "set_prop JNull k v = Inl TypeError"
| "set_prop (JObj kvs) k v = Inr (JObj (AList.update k v kvs))"
| "set_prop (JArr xs ps) k v = Inr (JArr xs (AList.update k v ps))"
| "set_prop (JBool b) k v = Inr (JBool b)"
| "set_prop (JNum n) k v = Inr (JNum n)"
| "set_prop (JStr s) k v = Inr (JStr s)"

definition deref :: "json option \<Rightarrow> js_error + json" where
  "deref a = (case a of None \<Rightarrow> Inl TypeError | Some v \<Rightarrow> Inr v)"

text \<open>An uncaught exception ends the program: the statements after it do not run.\<close>

definition bind :: "js_error + 'a \<Rightarrow> ('a \<Rightarrow> js_error + 'b) \<Rightarrow> js_error + 'b" where
  "bind m f = (case m of Inl e \<Rightarrow> Inl e | Inr x \<Rightarrow> f x)"

text \<open>
  The three forms of statement in the program. \<open>init_scripts\<close> is line 138,
  \<^verbatim>\<open>pkg.scripts = pkg.scripts || {}\<close>. \<open>set_if_missing k d\<close> is the form of lines 141 to
  146, \<^verbatim>\<open>if (!pkg.scripts.k) { pkg.scripts.k = d }\<close>. \<open>assign_default k d\<close> is the form of
  lines 148 to 155, \<^verbatim>\<open>pkg.scripts.k = pkg.scripts.k || d\<close>. The object that
  \<^verbatim>\<open>pkg.scripts\<close> refers to is mutated in place; in the model the changed object is
  stored back under \<^verbatim>\<open>scripts\<close>.
\<close>

definition init_scripts :: "json \<Rightarrow> js_error + json" where
  "init_scripts pkg =
     bind (get_prop pkg ''scripts'') (\<lambda>s. set_prop pkg ''scripts'' (or_else s (JObj [])))"

definition set_if_missing :: "string \<Rightarrow> string \<Rightarrow> json \<Rightarrow> js_error + json" where
  "set_if_missing k d pkg =
     bind (get_prop pkg ''scripts'') (\<lambda>s. bind (deref s) (\<lambda>sc. bind (get_prop sc k) (\<lambda>cur.
       if js_not cur
       then bind (set_prop sc k (JStr d)) (\<lambda>sc'. set_prop pkg ''scripts'' sc')
       else Inr pkg)))"

definition assign_default :: "string \<Rightarrow> string \<Rightarrow> json \<Rightarrow> js_error + json" where
  "assign_default k d pkg =
     bind (get_prop pkg ''scripts'') (\<lambda>s. bind (deref s) (\<lambda>sc. bind (get_prop sc k) (\<lambda>cur.
       bind (set_prop sc k (or_else cur (JStr d))) (\<lambda>sc'. set_prop pkg ''scripts'' sc'))))"

fun run_statements :: "(json \<Rightarrow> js_error + json) list \<Rightarrow> json \<Rightarrow> js_error + json" where
  "run_statements [] pkg = Inr pkg"
| "run_statements (s # ss) pkg = bind (s pkg) (run_statements ss)"

text \<open>Lines 138 to 155, in the order of the source.\<close>

definition node_script :: "json \<Rightarrow> js_error + json" where
  "node_script =
     run_statements
      [init_scripts,
       set_if_missing ''dev'' ''npx eleventy --serve --quiet'',
       set_if_missing ''build'' ''ELEVENTY_ENV=production npx eleventy'',
       assign_default ''format''
         ''prettier --write \"**/*.{js,jsx,ts,tsx,css,scss,md,json,njk,html}\"'',
       assign_default ''format:check''
         ''prettier --check \"**/*.{js,jsx,ts,tsx,css,scss,md,json,njk,html}\"'',
       assign_default ''lint:js'' ''eslint .'',
       assign_default ''lint:css'' ''stylelint \"src/**/*.css\"'',
       assign_default ''lint'' ''npm run lint:js && npm run lint:css'',
       assign_default ''precommit'' ''npm run format:check && npm run lint'',
       assign_default ''lhci'' ''lhci autorun'',
       assign_default ''prepare'' ''husky install'']"

text \<open>
  What \<^verbatim>\<open>JSON.stringify\<close> writes of a value: everything but the named properties of
  arrays. A value is \<open>plain\<close> when it has none, as every value that \<^verbatim>\<open>JSON.parse\<close>
  returns.
\<close>

primrec serialise :: "json \<Rightarrow> json" where
  "serialise JNull = JNull"
| "serialise (JBool b) = JBool b"
| "serialise (JNum n) = JNum n"
| "serialise (JStr s) = JStr s"
| "serialise (JArr xs ps) = JArr (map serialise xs) []"
| "serialise (JObj kvs) = JObj (map (map_prod id serialise) kvs)"


subsection \<open>Observations on the manifest\<close>

text \<open>
  The rest of this section names what the theorems speak about. \<open>defaults\<close> lists the
  ten aliases with the commands the program gives them, read off lines 141 to 155.
  \<open>fill\<close> is the effect of one statement of either form on the property list of
  \<^verbatim>\<open>pkg.scripts\<close>.
\<close>

definition defaults :: "(string \<times> string) list" where
  "defaults =
     [(''dev'', ''npx eleventy --serve --quiet''),
      (''build'', ''ELEVENTY_ENV=production npx eleventy''),
      (''format'', ''prettier --write \"**/*.{js,jsx,ts,tsx,css,scss,md,json,njk,html}\"''),
      (''format:check'',
       ''prettier --check \"**/*.{js,jsx,ts,tsx,css,scss,md,json,njk,html}\"''),
      (''lint:js'', ''eslint .''),
      (''lint:css'', ''stylelint \"src/**/*.css\"''),
      (''lint'', ''npm run lint:js && npm run lint:css''),
      (''precommit'', ''npm run format:check && npm run lint''),
      (''lhci'', ''lhci autorun''),
      (''prepare'', ''husky install'')]"

definition fill :: "string \<times> string \<Rightarrow> (string \<times> json) list \<Rightarrow> (string \<times> json) list" where
  "fill kd al = (if js_not (map_of al (fst kd)) then AList.update (fst kd) (JStr (snd kd)) al else al)"

fun fill_value :: "string \<times> string \<Rightarrow> json \<Rightarrow> json" where
  "fill_value kd (JObj al) = JObj (fill kd al)"
| "fill_value kd (JArr xs ps) = JArr xs (fill kd ps)"
| "fill_value kd v = v"

text \<open>The named properties of an object or array, and the value with them replaced.\<close>

definition own_props :: "json \<Rightarrow> (string \<times> json) list option" where
  "own_props pkg = (case pkg of JObj kvs \<Rightarrow> Some kvs | JArr xs ps \<Rightarrow> Some ps | _ \<Rightarrow> None)"

definition put_props :: "json \<Rightarrow> (string \<times> json) list \<Rightarrow> json" where
  "put_props pkg al = (case pkg of JObj kvs \<Rightarrow> JObj al | JArr xs ps \<Rightarrow> JArr xs al | v \<Rightarrow> v)"














section \<open>The bootstrap script\<close>

text \<open>
  The script is \<^verbatim>\<open>src/unnamed/part_000\<close> from line 15 on. Its state is the project tree and
  what it has done so far. The tree maps a path to the regular file there, with its content
  and executable bit; directories are implicit. The trace records, in order, every line
  echoed to standard output, every external tool run with its exit status, and every file
  written, directory made and mode changed by the script itself.

  The tools the script calls are not part of the repository and are parameters of the
  model: \<^verbatim>\<open>npm install\<close>, \<^verbatim>\<open>npx husky install\<close> and \<^verbatim>\<open>npx husky add\<close> each
  take the tree to an exit status and a new tree, and \<^verbatim>\<open>JSON.parse\<close> and
  \<^verbatim>\<open>JSON.stringify\<close> relate text and values (\<open>None\<close> is a SyntaxError).
\<close>

record regular_file =
  content :: string
  executable :: bool

type_synonym filesystem = "string \<Rightarrow> regular_file option"

datatype tool = NpmInstall | NodeJs | HuskyInstall | HuskyAdd

datatype event = Echo string | Exec tool nat | Write string | Mkdir string | Chmod string

record env =
  npm_install :: "filesystem \<Rightarrow> nat \<times> filesystem"
  husky_install :: "filesystem \<Rightarrow> nat \<times> filesystem"
  husky_add :: "filesystem \<Rightarrow> nat \<times> filesystem"
  json_parse :: "string \<Rightarrow> json option"
  json_stringify :: "json \<Rightarrow> string"

record state =
  fs :: filesystem
  trace :: "event list"

text \<open>
  A command takes a state to its exit status and the new state. The script's own
  redirections \<^verbatim>\<open>cat > file\<close> and its \<^verbatim>\<open>mkdir -p\<close> are modelled in a tree where they
  succeed; \<^verbatim>\<open>cat > file\<close> keeps the mode of a file that exists and creates a file
  that is not executable. \<^verbatim>\<open>chmod +x\<close> fails on a missing file.
\<close>

type_synonym command = "state \<Rightarrow> nat \<times> state"

definition record_event :: "event \<Rightarrow> state \<Rightarrow> state" where
  "record_event e st = st\<lparr>trace := trace st @ [e]\<rparr>"

definition echo :: "string \<Rightarrow> command" where
  "echo s st = (0, record_event (Echo s) st)"

definition heredoc :: "string list \<Rightarrow> string" where
  "heredoc ls = concat (map (\<lambda>l. l @ [CHR 0x0A]) ls)"

definition write_file :: "string \<Rightarrow> string \<Rightarrow> state \<Rightarrow> state" where
  "write_file p c st =
     record_event (Write p)
       (st\<lparr>fs := (fs st)(p \<mapsto>
          \<lparr>content = c,
           executable = (case fs st p of None \<Rightarrow> False | Some f \<Rightarrow> executable f)\<rparr>)\<rparr>)"

definition cat_to :: "string \<Rightarrow> string list \<Rightarrow> command" where
  "cat_to p ls st = (0, write_file p (heredoc ls) st)"

definition mkdir_p :: "string \<Rightarrow> command" where
  "mkdir_p p st = (0, record_event (Mkdir p) st)"

definition chmod_x :: "string \<Rightarrow> command" where
  "chmod_x p st =
     (case fs st p of
        None \<Rightarrow> (1, record_event (Chmod p) st)
      | Some f \<Rightarrow> (0, record_event (Chmod p) (st\<lparr>fs := (fs st)(p \<mapsto> f\<lparr>executable := True\<rparr>)\<rparr>)))"

definition run_tool :: "tool \<Rightarrow> (filesystem \<Rightarrow> nat \<times> filesystem) \<Rightarrow> command" where
  "run_tool t f st = (case f (fs st) of (s, fs') \<Rightarrow> (s, record_event (Exec t s) (st\<lparr>fs := fs'\<rparr>)))"

definition exit_script :: "nat \<Rightarrow> command" where
  "exit_script n st = (n, st)"

text \<open>
  The script runs under \<^verbatim>\<open>set -e\<close> (line 16): a list of commands stops at the first
  command that returns a non-zero status, and that status is the script's exit code.
  \<^verbatim>\<open>exit 1\<close> on line 23 ends the script in the same way. In
  \<^verbatim>\<open>c || { ...; }\<close> a failing \<open>c\<close> does not stop the script; the group runs instead,
  itself under \<^verbatim>\<open>set -e\<close>. \<^verbatim>\<open>[ ! -f p ]\<close> holds when there is no regular file at
  \<open>p\<close>.
\<close>

fun errexit :: "command list \<Rightarrow> command" where
  "errexit [] st = (0, st)"
| "errexit (c # cs) st = (case c st of (s, st') \<Rightarrow> if s \<noteq> 0 then (s, st') else errexit cs st')"

definition if_then :: "(state \<Rightarrow> bool) \<Rightarrow> command list \<Rightarrow> command" where
  "if_then test body st = (if test st then errexit body st else (0, st))"

definition or_else_group :: "command \<Rightarrow> command list \<Rightarrow> command" where
  "or_else_group c body st =
     (case c st of (s, st') \<Rightarrow> if s = 0 then (0, st') else errexit body st')"

definition no_regular_file :: "string \<Rightarrow> state \<Rightarrow> bool" where
  "no_regular_file p st = (fs st p = None)"

text \<open>
  The here-documents of the script, one list element per line: lines 39 to 45, 49 to 55,
  61 to 79, 83 to 86, 92 to 101, 105 to 107, 113 to 127, 168 to 171 and 181 to 242. The bytes
  after \<^verbatim>\<open>Lighthouse warnings\<close> are the ones in the source file.
\<close>

definition prettierrc :: "string list" where
  "prettierrc =
     [''{'',
      ''  \"printWidth\": 80,'',
      ''  \"singleQuote\": true,'',
      ''  \"trailingComma\": \"es5\",'',
      ''  \"semi\": true,'',
      ''  \"tabWidth\": 2'',
      ''}'']"

definition prettierignore :: "string list" where
  "prettierignore =
     [''node_modules'',
      ''_site'',
      ''dist'',
      ''coverage'',
      ''.build'',
      ''.cache'',
      ''*.min.js'']"

definition eslintrc_cjs :: "string list" where
  "eslintrc_cjs =
     [''/** @type {import('eslint').Linter.Config} */'',
      ''module.exports = {'',
      ''  env: {'',
      ''    browser: true,'',
      ''    es2021: true,'',
      ''    node: true'',
      ''  },'',
      ''  extends: ['eslint:recommended'],'',
      ''  parserOptions: {'',
      ''    ecmaVersion: 'latest','',
      ''    sourceType: 'module'' @ [CHR 0x27],
      ''  },'',
      ''  rules: {'',
      ''    'no-unused-vars': ['warn', { argsIgnorePattern: '^_' }],'',
      ''    'no-undef': 'error','',
      ''    'no-console': 'off'' @ [CHR 0x27],
      ''  },'',
      ''  ignorePatterns: ['_site/**', 'dist/**', 'node_modules/**']'',
      ''};'']"

definition eslintignore :: "string list" where
  "eslintignore =
     [''node_modules'',
      ''_site'',
      ''dist'',
      ''coverage'']"

definition stylelintrc_json :: "string list" where
  "stylelintrc_json =
     [''{'',
      ''  \"extends\": [\"stylelint-config-standard\"],'',
      ''  \"rules\": {'',
      ''    \"color-hex-case\": \"lower\",'',
      ''    \"color-hex-length\": \"short\",'',
      ''    \"block-no-empty\": true,'',
      ''    \"declaration-block-no-duplicate-properties\": true,'',
      ''    \"no-descending-specificity\": null'',
      ''  }'',
      ''}'']"

definition stylelintignore :: "string list" where
  "stylelintignore =
     [''node_modules'',
      ''_site'',
      ''dist'']"

definition lighthouserc_json :: "string list" where
  "lighthouserc_json =
     [''{'',
      ''  \"ci\": {'',
      ''    \"collect\": {'',
      ''      \"staticDistDir\": \"_site\"'',
      ''    },'',
      ''    \"assert\": {'',
      ''      \"assertions\": {'',
      ''        \"categories:performance\": [\"warn\", { \"minScore\": 0.9 }],'',
      ''        \"categories:accessibility\": [\"warn\", { \"minScore\": 0.9 }],'',
      ''        \"categories:best-practices\": [\"warn\", { \"minScore\": 0.9 }],'',
      ''        \"categories:seo\": [\"warn\", { \"minScore\": 0.9 }]'',
      ''      }'',
      ''    }'',
      ''  }'',
      ''}'']"

definition pre_commit_hook :: "string list" where
  "pre_commit_hook =
     [''#!/bin/sh'',
      ''. \"$(dirname \"$0\")/_/husky.sh\"'',
      '''',
      ''npm run precommit'']"

definition ci_cd_yml :: "string list" where
  "ci_cd_yml =
     [''name: CI/CD'',
      '''',
      ''on:'',
      ''  push:'',
      ''    branches: [ main ]'',
      ''  pull_request:'',
      '''',
      ''jobs:'',
      ''  build-and-test:'',
      ''    runs-on: ubuntu-latest'',
      '''',
      ''    steps:'',
      ''      - name: Checkout'',
      ''        uses: actions/checkout@v4'',
      '''',
      ''      - name: Use Node.js'',
      ''        uses: actions/setup-node@v4'',
      ''        with:'',
      ''          node-version: 20'',
      ''          cache: npm'',
      '''',
      ''      - name: Install dependencies'',
      ''        run: npm ci'',
      '''',
      ''      - name: Check formatting (Prettier)'',
      ''        run: npm run format:check'',
      '''',
      ''      - name: Run linters'',
      ''        run: npm run lint'',
      '''',
      ''      - name: Build Eleventy site'',
      ''        run: npm run build'',
      '''',
      ''      - name: Lighthouse CI'',
      ''        run: npm run lhci || echo \"Lighthouse warnings '' @
        [CHR 0xC3, CHR 0xA2, CHR 0xE2, CHR 0x82, CHR 0xAC, CHR 0xE2, CHR 0x80, CHR 0x9C] @
        '' check reports\"'',
      '''',
      ''  deploy:'',
      ''    needs: build-and-test'',
      ''    if: github.ref == 'refs/heads/main'' @ [CHR 0x27],
      ''    runs-on: ubuntu-latest'',
      '''',
      ''    steps:'',
      ''      - name: Checkout'',
      ''        uses: actions/checkout@v4'',
      '''',
      ''      - name: Use Node.js'',
      ''        uses: actions/setup-node@v4'',
      ''        with:'',
      ''          node-version: 20'',
      ''          cache: npm'',
      '''',
      ''      - name: Install dependencies'',
      ''        run: npm ci'',
      '''',
      ''      - name: Build Eleventy site'',
      ''        run: npm run build'',
      '''',
      ''      - name: Deploy to GitHub Pages'',
      ''        uses: peaceiris/actions-gh-pages@v4'',
      ''        with:'',
      ''          github_token: ${{ secrets.GITHUB_TOKEN }}'',
      ''          publish_dir: ./_site'']"

text \<open>
  The \<^verbatim>\<open>node\<close> command of lines 132 to 158: read and parse \<^verbatim>\<open>package.json\<close>, run
  \<open>node_script\<close>, write the result back. A missing file, a SyntaxError or a TypeError is
  an uncaught exception, on which node exits with status 1 and writes nothing.
\<close>

definition node_heredoc :: "env \<Rightarrow> command" where
  "node_heredoc env st =
     (case fs st ''package.json'' of
        None \<Rightarrow> (1, record_event (Exec NodeJs 1) st)
      | Some f \<Rightarrow>
          (case json_parse env (content f) of
             None \<Rightarrow> (1, record_event (Exec NodeJs 1) st)
           | Some pkg \<Rightarrow>
               (case node_script pkg of
                  Inl e \<Rightarrow> (1, record_event (Exec NodeJs 1) st)
                | Inr pkg' \<Rightarrow>
                    (0, record_event (Exec NodeJs 0)
                          (write_file ''package.json'' (json_stringify env (serialise pkg')) st)))))"

text \<open>The script, section by section as its comments number them (lines 18 to 255).\<close>

definition sanity_checks :: "command list" where
  "sanity_checks =
     [echo ''=== Quality Gates Setup Script ==='',
      if_then (no_regular_file ''package.json'')
        [echo ''No package.json found. Run 'npm init -y' first, then rerun this script.'',
         exit_script 1]]"

definition install_dev_dependencies :: "env \<Rightarrow> command list" where
  "install_dev_dependencies env =
     [echo (''Installing dev dependencies '' @
            ''(Prettier, ESLint, Stylelint, Husky, Lighthouse CI)...''),
      run_tool NpmInstall (npm_install env)]"

definition create_configs :: "command list" where
  "create_configs =
     [echo ''Creating .prettierrc and .prettierignore...'',
      cat_to ''.prettierrc'' prettierrc,
      cat_to ''.prettierignore'' prettierignore,
      echo ''Creating .eslintrc.cjs and .eslintignore...'',
      cat_to ''.eslintrc.cjs'' eslintrc_cjs,
      cat_to ''.eslintignore'' eslintignore,
      echo ''Creating .stylelintrc.json and .stylelintignore...'',
      cat_to ''.stylelintrc.json'' stylelintrc_json,
      cat_to ''.stylelintignore'' stylelintignore,
      echo ''Creating lighthouserc.json...'',
      cat_to ''lighthouserc.json'' lighthouserc_json]"

definition update_scripts :: "env \<Rightarrow> command list" where
  "update_scripts env =
     [echo ''Updating package.json scripts...'',
      node_heredoc env]"

definition set_up_husky :: "env \<Rightarrow> command list" where
  "set_up_husky env =
     [echo ''Setting up Husky pre-commit hook...'',
      run_tool HuskyInstall (husky_install env),
      mkdir_p ''.husky'',
      or_else_group (run_tool HuskyAdd (husky_add env))
        [cat_to ''.husky/pre-commit'' pre_commit_hook,
         chmod_x ''.husky/pre-commit'']]"

definition create_workflow :: "command list" where
  "create_workflow =
     [echo ''Creating GitHub Actions workflow (.github/workflows/ci-cd.yml)...'',
      mkdir_p ''.github/workflows'',
      cat_to ''.github/workflows/ci-cd.yml'' ci_cd_yml]"

definition summary :: "command list" where
  "summary =
     [echo ''=== Done. Quality gates are configured. ==='',
      echo ''You now have:'',
      echo ''  - Prettier (.prettierrc, .prettierignore)'',
      echo ''  - ESLint (.eslintrc.cjs, .eslintignore)'',
      echo ''  - Stylelint (.stylelintrc.json, .stylelintignore)'',
      echo ''  - Husky pre-commit hook (runs format:check + lint)'',
      echo ''  - Lighthouse CI (lighthouserc.json)'',
      echo ''  - GitHub Actions CI/CD (.github/workflows/ci-cd.yml)'',
      echo '''',
      echo ''Try: npm run format:check, npm run lint, npm run build'',
      echo ''Then commit and push to see CI run on GitHub.'']"

definition script :: "env \<Rightarrow> command list" where
  "script env =
     sanity_checks @ install_dev_dependencies env @ create_configs @ update_scripts env @
     set_up_husky env @ create_workflow @ summary"

definition bootstrap :: "env \<Rightarrow> filesystem \<Rightarrow> nat \<times> state" where
  "bootstrap env fs0 = errexit (script env) \<lparr>fs = fs0, trace = []\<rparr>"

subsection \<open>Observations on a run\<close>


definition keep_mode :: "filesystem \<Rightarrow> string \<Rightarrow> bool" where
  "keep_mode fs0 p = (case fs0 p of None \<Rightarrow> False | Some f \<Rightarrow> executable f)"


definition written :: "string \<Rightarrow> string \<Rightarrow> filesystem \<Rightarrow> filesystem" where
  "written p c fs0 = fs0(p \<mapsto> \<lparr>content = c, executable = keep_mode fs0 p\<rparr>)"


definition configs_trace :: "event list" where
  "configs_trace =
     [Echo ''Creating .prettierrc and .prettierignore...'',
      Write ''.prettierrc'', Write ''.prettierignore'',
      Echo ''Creating .eslintrc.cjs and .eslintignore...'',
      Write ''.eslintrc.cjs'', Write ''.eslintignore'',
      Echo ''Creating .stylelintrc.json and .stylelintignore...'',
      Write ''.stylelintrc.json'', Write ''.stylelintignore'',
      Echo ''Creating lighthouserc.json...'',
      Write ''lighthouserc.json'']"


definition hook_trace :: "nat \<Rightarrow> event list" where
  "hook_trace s =
     (if s = 0 then [] else [Write ''.husky/pre-commit'', Chmod ''.husky/pre-commit''])"

definition closing_trace :: "event list" where
  "closing_trace =
     [Echo ''Creating GitHub Actions workflow (.github/workflows/ci-cd.yml)...'',
      Mkdir ''.github/workflows'',
      Write ''.github/workflows/ci-cd.yml'',
      Echo ''=== Done. Quality gates are configured. ==='',
      Echo ''You now have:'',
      Echo ''  - Prettier (.prettierrc, .prettierignore)'',
      Echo ''  - ESLint (.eslintrc.cjs, .eslintignore)'',
      Echo ''  - Stylelint (.stylelintrc.json, .stylelintignore)'',
      Echo ''  - Husky pre-commit hook (runs format:check + lint)'',
      Echo ''  - Lighthouse CI (lighthouserc.json)'',
      Echo ''  - GitHub Actions CI/CD (.github/workflows/ci-cd.yml)'',
      Echo '''',
      Echo ''Try: npm run format:check, npm run lint, npm run build'',
      Echo ''Then commit and push to see CI run on GitHub.'']"

definition opening_trace :: "nat \<Rightarrow> event list" where
  "opening_trace s =
     [Echo ''=== Quality Gates Setup Script ==='',
      Echo (''Installing dev dependencies '' @
            ''(Prettier, ESLint, Stylelint, Husky, Lighthouse CI)...''),
      Exec NpmInstall s]"

definition husky_trace :: "event list" where
  "husky_trace =
     [Echo ''Updating package.json scripts...'', Write ''package.json'', Exec NodeJs 0,
      Echo ''Setting up Husky pre-commit hook...'']"


definition leaves :: "(filesystem \<Rightarrow> nat \<times> filesystem) \<Rightarrow> string list \<Rightarrow> bool" where
  "leaves t ps = (\<forall>fs0. \<forall>p \<in> set ps. snd (t fs0) p = fs0 p)"

text \<open>
  A concrete environment for the runs below: tools that leave the tree alone and return
  the given statuses, and \<^verbatim>\<open>JSON.parse\<close> and \<^verbatim>\<open>JSON.stringify\<close> restricted to the
  one text and the one value that occur, the manifest \<^verbatim>\<open>{}\<close> and the manifest with
  the ten default scripts.
\<close>

definition merged_manifest_lines :: "string list" where
  "merged_manifest_lines =
     [''{'',
      ''  \"scripts\": {'',
      ''    \"dev\": \"npx eleventy --serve --quiet\",'',
      ''    \"build\": \"ELEVENTY_ENV=production npx eleventy\",'',
      ''    \"format\": \"prettier --write '' @ [CHR 0x5C] @ ''\"**/*.{js,jsx,ts,tsx,css,scss,md,json,njk,html}'' @ [CHR 0x5C] @ ''\"\",'',
      ''    \"format:check\": \"prettier --check '' @ [CHR 0x5C] @ ''\"**/*.{js,jsx,ts,tsx,css,scss,md,json,njk,html}'' @ [CHR 0x5C] @ ''\"\",'',
      ''    \"lint:js\": \"eslint .\",'',
      ''    \"lint:css\": \"stylelint '' @ [CHR 0x5C] @ ''\"src/**/*.css'' @ [CHR 0x5C] @ ''\"\",'',
      ''    \"lint\": \"npm run lint:js && npm run lint:css\",'',
      ''    \"precommit\": \"npm run format:check && npm run lint\",'',
      ''    \"lhci\": \"lhci autorun\",'',
      ''    \"prepare\": \"husky install\"'',
      ''  }'',
      ''}'']"

definition merged_manifest :: json where
  "merged_manifest = JObj [(''scripts'', JObj (map (\<lambda>(k, d). (k, JStr d)) defaults))]"

definition sample_env :: "nat \<Rightarrow> nat \<Rightarrow> nat \<Rightarrow> env" where
  "sample_env s_npm s_install s_add =
     \<lparr>npm_install = (\<lambda>fs0. (s_npm, fs0)),
      husky_install = (\<lambda>fs0. (s_install, fs0)),
      husky_add = (\<lambda>fs0. (s_add, fs0)),
      json_parse = (\<lambda>t. if t = ''{}'' then Some (JObj []) else None),
      json_stringify =
        (\<lambda>v. if v = merged_manifest then butlast (heredoc merged_manifest_lines) else [])\<rparr>"


section \<open>The pipeline definition\<close>

text \<open>
  Step 9 of the script writes \<^verbatim>\<open>.github/workflows/ci-cd.yml\<close> (lines 181 to 242). The
  workflow is transcribed here as data; \<open>render_workflow\<close> prints it back, and
  \<open>ci_cd_rendered\<close> below shows that the printed lines are exactly the lines the script
  writes.
\<close>

datatype sh = Cmd string | EchoCmd string | OrList sh sh

datatype step_body = Uses string "(string \<times> string) list" | Run sh

record step =
  step_name :: string
  body :: step_body

datatype operand = GithubRef | Lit string

datatype expression = Equals operand operand

record job =
  job_id :: string
  job_needs :: "string list"
  job_if :: "expression option"
  runs_on :: string
  job_steps :: "step list"

record workflow =
  wf_name :: string
  push_branches :: "string list"
  on_pull_request :: bool
  jobs :: "job list"

text \<open>The steps, the two jobs and the workflow of lines 181 to 242.\<close>

definition checkout :: step where
  "checkout = \<lparr>step_name = ''Checkout'', body = Uses ''actions/checkout@v4'' []\<rparr>"

definition use_node :: step where
  "use_node =
     \<lparr>step_name = ''Use Node.js'',
      body = Uses ''actions/setup-node@v4'' [(''node-version'', ''20''), (''cache'', ''npm'')]\<rparr>"

definition install_dependencies :: step where
  "install_dependencies =
     \<lparr>step_name = ''Install dependencies'', body = Run (Cmd ''npm ci'')\<rparr>"

definition check_formatting :: step where
  "check_formatting =
     \<lparr>step_name = ''Check formatting (Prettier)'', body = Run (Cmd ''npm run format:check'')\<rparr>"

definition run_linters :: step where
  "run_linters = \<lparr>step_name = ''Run linters'', body = Run (Cmd ''npm run lint'')\<rparr>"

definition build_site :: step where
  "build_site = \<lparr>step_name = ''Build Eleventy site'', body = Run (Cmd ''npm run build'')\<rparr>"

definition lighthouse_ci :: step where
  "lighthouse_ci =
     \<lparr>step_name = ''Lighthouse CI'',
      body = Run (OrList (Cmd ''npm run lhci'')
               (EchoCmd (''Lighthouse warnings '' @
                  [CHR 0xC3, CHR 0xA2, CHR 0xE2, CHR 0x82, CHR 0xAC, CHR 0xE2, CHR 0x80, CHR 0x9C] @
                  '' check reports'')))\<rparr>"

definition deploy_pages :: step where
  "deploy_pages =
     \<lparr>step_name = ''Deploy to GitHub Pages'',
      body = Uses ''peaceiris/actions-gh-pages@v4''
               [(''github_token'', ''${{ secrets.GITHUB_TOKEN }}''),
                (''publish_dir'', ''./_site'')]\<rparr>"

definition build_and_test :: job where
  "build_and_test =
     \<lparr>job_id = ''build-and-test'', job_needs = [], job_if = None,
      runs_on = ''ubuntu-latest'',
      job_steps =
        [checkout, use_node, install_dependencies, check_formatting, run_linters, build_site,
         lighthouse_ci]\<rparr>"

definition deploy :: job where
  "deploy =
     \<lparr>job_id = ''deploy'', job_needs = [''build-and-test''],
      job_if = Some (Equals GithubRef (Lit ''refs/heads/main'')),
      runs_on = ''ubuntu-latest'',
      job_steps = [checkout, use_node, install_dependencies, build_site, deploy_pages]\<rparr>"

definition ci_cd :: workflow where
  "ci_cd =
     \<lparr>wf_name = ''CI/CD'', push_branches = [''main''], on_pull_request = True,
      jobs = [build_and_test, deploy]\<rparr>"

text \<open>Printing a workflow in the layout of the source.\<close>

fun render_sh :: "sh \<Rightarrow> string" where
  "render_sh (Cmd c) = c"
| "render_sh (EchoCmd s) = ''echo \"'' @ s @ ''\"''"
| "render_sh (OrList a b) = render_sh a @ '' || '' @ render_sh b"

fun render_operand :: "operand \<Rightarrow> string" where
  "render_operand GithubRef = ''github.ref''"
| "render_operand (Lit s) = [CHR 0x27] @ s @ [CHR 0x27]"

fun render_expression :: "expression \<Rightarrow> string" where
  "render_expression (Equals a b) = render_operand a @ '' == '' @ render_operand b"

fun render_body :: "step_body \<Rightarrow> string list" where
  "render_body (Run c) = [''        run: '' @ render_sh c]"
| "render_body (Uses a ws) =
     (''        uses: '' @ a) #
     (if ws = [] then []
      else ''        with:'' # map (\<lambda>(k, v). ''          '' @ k @ '': '' @ v) ws)"

definition render_step :: "step \<Rightarrow> string list" where
  "render_step s = (''      - name: '' @ step_name s) # render_body (body s)"

definition render_job :: "job \<Rightarrow> string list" where
  "render_job j =
     [''  '' @ job_id j @ '':''] @
     map (\<lambda>n. ''    needs: '' @ n) (job_needs j) @
     (case job_if j of None \<Rightarrow> [] | Some e \<Rightarrow> [''    if: '' @ render_expression e]) @
     [''    runs-on: '' @ runs_on j, '''', ''    steps:''] @
     concat (map (\<lambda>ls. ls @ ['''']) (map render_step (job_steps j)))"

definition render_branches :: "string list \<Rightarrow> string" where
  "render_branches bs = ''[ '' @ concat (map (\<lambda>b. b @ '' '') bs) @ '']''"

definition render_workflow :: "workflow \<Rightarrow> string list" where
  "render_workflow w =
     butlast
       ([''name: '' @ wf_name w, '''', ''on:'', ''  push:'',
         ''    branches: '' @ render_branches (push_branches w)] @
        (if on_pull_request w then [''  pull_request:''] else []) @
        ['''', ''jobs:''] @
        concat (map render_job (jobs w)))"

subsection \<open>Execution of a workflow\<close>

text \<open>
  How the hosted runner executes a workflow. A run is set off by a push to a branch or by
  a pull request; \<^verbatim>\<open>github.ref\<close> is \<^verbatim>\<open>refs/heads/<branch>\<close> for a push and
  \<^verbatim>\<open>refs/pull/<number>/merge\<close> for a pull request. The runner supplies the exit status
  of every command and the outcome of every action, per job. A \<^verbatim>\<open>run\<close> step succeeds
  when its command line exits with 0, where \<^verbatim>\<open>a || b\<close> exits with 0 if \<open>a\<close> does and
  with the status of \<open>b\<close> otherwise, and \<^verbatim>\<open>echo\<close> exits with 0. The steps of a job run
  in order and the job fails at the first step that fails. A job starts when every job it
  \<^verbatim>\<open>needs\<close> has succeeded and its \<^verbatim>\<open>if\<close> condition, if any, holds; otherwise it is
  skipped.
\<close>

record runner =
  command_status :: "string \<Rightarrow> string \<Rightarrow> nat"
  action_ok :: "string \<Rightarrow> string \<Rightarrow> bool"

datatype trigger = Push string | PullRequest string

datatype conclusion = Success | Failure | Skipped

fun sh_status :: "(string \<Rightarrow> nat) \<Rightarrow> sh \<Rightarrow> nat" where
  "sh_status st (Cmd c) = st c"
| "sh_status st (EchoCmd s) = 0"
| "sh_status st (OrList a b) = (if sh_status st a = 0 then 0 else sh_status st b)"

fun step_ok :: "runner \<Rightarrow> string \<Rightarrow> step_body \<Rightarrow> bool" where
  "step_ok rn j (Run c) = (sh_status (command_status rn j) c = 0)"
| "step_ok rn j (Uses a ws) = action_ok rn j a"

definition steps_conclusion :: "runner \<Rightarrow> job \<Rightarrow> conclusion" where
  "steps_conclusion rn j =
     (if list_all (\<lambda>s. step_ok rn (job_id j) (body s)) (job_steps j) then Success else Failure)"

fun step_reached :: "runner \<Rightarrow> string \<Rightarrow> step list \<Rightarrow> string \<Rightarrow> bool" where
  "step_reached rn j [] n = False"
| "step_reached rn j (s # ss) n =
     (if step_name s = n then True
      else step_ok rn j (body s) \<and> step_reached rn j ss n)"

definition github_ref :: "trigger \<Rightarrow> string" where
  "github_ref ev =
     (case ev of
        Push b \<Rightarrow> ''refs/heads/'' @ b
      | PullRequest n \<Rightarrow> ''refs/pull/'' @ n @ ''/merge'')"

definition triggered :: "workflow \<Rightarrow> trigger \<Rightarrow> bool" where
  "triggered w ev =
     (case ev of Push b \<Rightarrow> b \<in> set (push_branches w) | PullRequest n \<Rightarrow> on_pull_request w)"

fun eval_operand :: "trigger \<Rightarrow> operand \<Rightarrow> string" where
  "eval_operand ev GithubRef = github_ref ev"
| "eval_operand ev (Lit s) = s"

fun eval_expression :: "trigger \<Rightarrow> expression \<Rightarrow> bool" where
  "eval_expression ev (Equals a b) = (eval_operand ev a = eval_operand ev b)"

definition job_starts :: "trigger \<Rightarrow> (string \<times> conclusion) list \<Rightarrow> job \<Rightarrow> bool" where
  "job_starts ev done j =
     (list_all (\<lambda>n. map_of done n = Some Success) (job_needs j) \<and>
      (case job_if j of None \<Rightarrow> True | Some e \<Rightarrow> eval_expression ev e))"

fun run_jobs ::
  "runner \<Rightarrow> trigger \<Rightarrow> (string \<times> conclusion) list \<Rightarrow> job list \<Rightarrow> (string \<times> conclusion) list"
where
  "run_jobs rn ev done [] = done"
| "run_jobs rn ev done (j # js) =
     run_jobs rn ev
       (done @ [(job_id j, if job_starts ev done j then steps_conclusion rn j else Skipped)]) js"

definition run_workflow :: "runner \<Rightarrow> workflow \<Rightarrow> trigger \<Rightarrow> (string \<times> conclusion) list" where
  "run_workflow rn w ev = (if triggered w ev then run_jobs rn ev [] (jobs w) else [])"

definition job_executed :: "runner \<Rightarrow> workflow \<Rightarrow> trigger \<Rightarrow> string \<Rightarrow> bool" where
  "job_executed rn w ev j =
     (case map_of (run_workflow rn w ev) j of
        None \<Rightarrow> False
      | Some Skipped \<Rightarrow> False
      | Some c \<Rightarrow> True)"

section \<open>Properties of the site build configuration\<close>

lemma segments_src: "segments ''src'' = [''src'']"
  by (simp add: segments_def)

lemma segments_includes: "segments ''_includes'' = [''_includes'']"
  by (simp add: segments_def)

lemma segments_layouts: "segments ''_includes/layouts'' = [''_includes'', ''layouts'']"
  by (simp add: segments_def)

lemma segments_src_includes: "segments ''src/_includes'' = [''src'', ''_includes'']"
  by (simp add: segments_def)

lemma segments_src_layouts:
  "segments ''src/_includes/layouts'' = [''src'', ''_includes'', ''layouts'']"
  by (simp add: segments_def)

lemmas segments_literals =
  segments_src segments_includes segments_layouts segments_src_includes segments_src_layouts

lemma dir_literal_relative:
  "dirs_relative_to_input \<lparr>dir = dir_literal, templateFormats = tf, pathPrefix = pp\<rparr>"
  by (simp add: dirs_relative_to_input_def dir_literal_def is_relative_def subdir_of_def
      stays_inside_def join_path_def segments_literals)

text \<open>
  Claim C9. In each of the three revisions of the site build configuration, whatever
  generator object it is applied to, the includes directory and the layouts directory are
  relative paths, the layouts directory lies under the includes directory, and joined to
  the input directory both are subdirectories of the source tree.
\<close>

theorem C9_dirs_relative_to_input:
  "dirs_relative_to_input (snd (config_v1 ec)) \<and>
   dirs_relative_to_input (snd (config_v2 ec)) \<and>
   dirs_relative_to_input (snd (config_v3 ec))"
  using dir_literal_relative
  by (simp add: config_v1_def config_v2_def config_v3_def dir_literal_def)

text \<open>The three revisions applied to a generator object with no globs yet.\<close>

theorem C9_dirs_relative_to_input_witness:
  "dirs_relative_to_input (snd (config_v1 [])) \<and>
   dirs_relative_to_input (snd (config_v2 [])) \<and>
   dirs_relative_to_input (snd (config_v3 [])) \<and>
   join_path (dir_input (dir (snd (config_v2 [])))) (dir_layouts (dir (snd (config_v2 [])))) =
     ''src/_includes/layouts''"
  using C9_dirs_relative_to_input [of "[]"]
  by (simp add: config_v2_def join_path_def)

section \<open>Properties of command registration\<close>

text \<open>
  On an object or an array, every statement of the program rewrites the property list of
  \<^verbatim>\<open>pkg.scripts\<close> by \<open>fill\<close>; the two forms of statement have the same effect.
\<close>

lemma fill_value_truthy [simp]: "truthy v \<Longrightarrow> truthy (fill_value kd v)"
  by (cases v) simp_all

lemma own_put_props [simp]:
  "own_props pkg = Some al \<Longrightarrow> own_props (put_props pkg al') = Some al'"
  by (cases pkg) (simp_all add: own_props_def put_props_def)

lemma put_put_props [simp]: "put_props (put_props pkg al) al' = put_props pkg al'"
  by (cases pkg) (simp_all add: put_props_def)





lemma or_else_truthy [simp]: "truthy d \<Longrightarrow> truthy (or_else a d)"
  by (simp add: or_else_def split: option.splits)



lemma map_of_update_same [simp]: "map_of (AList.update k v al) k = Some v"
  by (simp add: update_conv')











































section \<open>Properties of the bootstrap script\<close>

lemmas command_defs =
  echo_def cat_to_def mkdir_p_def chmod_x_def run_tool_def exit_script_def if_then_def
  or_else_group_def no_regular_file_def record_event_def write_file_def

text \<open>The script is evaluated section by section.\<close>

lemma errexit_append:
  "errexit (xs @ ys) st =
     (if fst (errexit xs st) \<noteq> 0 then errexit xs st else errexit ys (snd (errexit xs st)))"
  by (induction xs arbitrary: st) (auto split: prod.splits)

lemma sanity_absent:
  "fs st ''package.json'' = None \<Longrightarrow>
   errexit sanity_checks st =
     (1, st\<lparr>trace := trace st @
        [Echo ''=== Quality Gates Setup Script ==='',
         Echo ''No package.json found. Run 'npm init -y' first, then rerun this script.'']\<rparr>)"
  by (simp add: sanity_checks_def command_defs)










text \<open>The whole run, without and with a manifest.\<close>

lemma bootstrap_no_manifest:
  assumes "fs0 ''package.json'' = None"
  shows "bootstrap env fs0 =
     (1, \<lparr>fs = fs0,
          trace =
            [Echo ''=== Quality Gates Setup Script ==='',
             Echo ''No package.json found. Run 'npm init -y' first, then rerun this script.'']\<rparr>)"
  using assms by (simp add: bootstrap_def script_def errexit_append sanity_absent)


text \<open>The external tools recorded in each part of the trace.\<close>

lemma exec_opening [simp]:
  "Exec t s \<in> set (opening_trace s2) \<longleftrightarrow> t = NpmInstall \<and> s = s2"
  by (auto simp: opening_trace_def)

lemma exec_configs [simp]: "Exec t s \<notin> set configs_trace"
  by (simp add: configs_trace_def)

lemma exec_husky [simp]: "Exec t s \<in> set husky_trace \<longleftrightarrow> t = NodeJs \<and> s = 0"
  by (auto simp: husky_trace_def)

lemma exec_hook [simp]: "Exec t s \<notin> set (hook_trace s9)"
  by (simp add: hook_trace_def)

lemma exec_closing [simp]: "Exec t s \<notin> set closing_trace"
  by (simp add: closing_trace_def)

lemma written_other [simp]: "q \<noteq> p \<Longrightarrow> written p c fs0 q = fs0 q"
  by (simp add: written_def)

lemma hook_path_distinct [simp]: "''.husky/pre-commit'' \<noteq> ''.github/workflows/ci-cd.yml''"
  by simp








text \<open>
  Claim C6. When \<^verbatim>\<open>package.json\<close> is absent the script exits with status 1, the project
  tree is unchanged, and all it has done is echo its banner and the guidance to run
  \<^verbatim>\<open>npm init -y\<close>: no tool was run and no file was written.
\<close>

theorem C6_manifest_absent:
  assumes "fs0 ''package.json'' = None"
  shows "fst (bootstrap env fs0) = 1 \<and>
         fs (snd (bootstrap env fs0)) = fs0 \<and>
         trace (snd (bootstrap env fs0)) =
           [Echo ''=== Quality Gates Setup Script ==='',
            Echo ''No package.json found. Run 'npm init -y' first, then rerun this script.''] \<and>
         (\<forall>t s. Exec t s \<notin> set (trace (snd (bootstrap env fs0)))) \<and>
         (\<forall>p. Write p \<notin> set (trace (snd (bootstrap env fs0))))"
  using assms by (simp add: bootstrap_no_manifest)








lemma sample_tools [simp]:
  "npm_install (sample_env s2 s8 s9) fs0 = (s2, fs0)"
  "husky_install (sample_env s2 s8 s9) fs0 = (s8, fs0)"
  "husky_add (sample_env s2 s8 s9) fs0 = (s9, fs0)"
  by (simp_all add: sample_env_def)

lemma sample_leaves [simp]:
  "leaves (husky_install (sample_env s2 s8 s9)) ps"
  "leaves (husky_add (sample_env s2 s8 s9)) ps"
  by (simp_all add: leaves_def sample_env_def)








text \<open>A run in an empty tree.\<close>

theorem C6_manifest_absent_witness:
  "fst (bootstrap (sample_env 0 0 0) Map.empty) = 1 \<and>
   fs (snd (bootstrap (sample_env 0 0 0) Map.empty)) = Map.empty \<and>
   length (trace (snd (bootstrap (sample_env 0 0 0) Map.empty))) = 2"
  using C6_manifest_absent [of Map.empty "sample_env 0 0 0"] by simp

section \<open>Properties of the pipeline definition\<close>

text \<open>The transcribed workflow is the file the script writes.\<close>

lemma ci_cd_rendered: "render_workflow ci_cd = ci_cd_yml"
  by (simp add: render_workflow_def render_job_def render_step_def render_branches_def
      ci_cd_def build_and_test_def deploy_def checkout_def use_node_def
      install_dependencies_def check_formatting_def run_linters_def build_site_def
      lighthouse_ci_def deploy_pages_def ci_cd_yml_def)

lemma lighthouse_step_ok: "step_ok rn j (body lighthouse_ci)"
  by (simp add: lighthouse_ci_def)

lemma build_and_test_reached:
  "step_reached rn ''build-and-test'' (job_steps build_and_test) ''Lighthouse CI'' \<longleftrightarrow>
   list_all (\<lambda>s. step_ok rn ''build-and-test'' (body s))
     [checkout, use_node, install_dependencies, check_formatting, run_linters, build_site]"
  by (simp add: build_and_test_def checkout_def use_node_def install_dependencies_def
      check_formatting_def run_linters_def build_site_def lighthouse_ci_def)

text \<open>
  Claim C7. The workflow transcribed above is the pipeline definition the script writes.
  In it, for every exit status of \<^verbatim>\<open>npm run lhci\<close> the Lighthouse CI step of the
  build-and-test job succeeds. Hence whenever the job gets as far as that step, the job
  concludes with success, and so it is reported in every run of the workflow.
\<close>

theorem C7_audit_non_fatal:
  "render_workflow ci_cd = ci_cd_yml \<and>
   step_ok rn ''build-and-test'' (body lighthouse_ci) \<and>
   (step_reached rn ''build-and-test'' (job_steps build_and_test) ''Lighthouse CI'' \<longrightarrow>
      steps_conclusion rn build_and_test = Success \<and>
      (triggered ci_cd ev \<longrightarrow>
         map_of (run_workflow rn ci_cd ev) ''build-and-test'' = Some Success))"
proof -
  have ok: "step_ok rn ''build-and-test'' (body lighthouse_ci)"
    by (rule lighthouse_step_ok)
  have concl: "steps_conclusion rn build_and_test = Success"
    if "step_reached rn ''build-and-test'' (job_steps build_and_test) ''Lighthouse CI''"
    using that ok unfolding build_and_test_reached
    by (simp add: steps_conclusion_def build_and_test_def)
  have run: "map_of (run_workflow rn ci_cd ev) ''build-and-test'' =
      Some (steps_conclusion rn build_and_test)" if "triggered ci_cd ev"
    using that
    by (simp add: run_workflow_def ci_cd_def job_starts_def build_and_test_def deploy_def)
  show ?thesis
    using ok concl run by (simp add: ci_cd_rendered)
qed

lemma job_headers:
  "job_id build_and_test = ''build-and-test''" "job_needs build_and_test = []"
  "job_if build_and_test = None"
  "job_id deploy = ''deploy''" "job_needs deploy = [''build-and-test'']"
  "job_if deploy = Some (Equals GithubRef (Lit ''refs/heads/main''))"
  by (simp_all add: build_and_test_def deploy_def)

lemma deploy_conclusion:
  "map_of (run_workflow rn ci_cd ev) ''deploy'' =
     (if triggered ci_cd ev
      then Some (if steps_conclusion rn build_and_test = Success \<and>
                    github_ref ev = ''refs/heads/main''
                 then steps_conclusion rn deploy else Skipped)
      else None)"
  by (simp add: run_workflow_def ci_cd_def job_starts_def job_headers)

lemma steps_conclusion_not_skipped: "steps_conclusion rn j \<noteq> Skipped"
  by (simp add: steps_conclusion_def)

lemma pull_request_ref: "github_ref (PullRequest n) \<noteq> ''refs/heads/main''"
  by (simp add: github_ref_def)

lemma push_ref: "github_ref (Push b) = ''refs/heads/main'' \<longleftrightarrow> b = ''main''"
  by (simp add: github_ref_def)

text \<open>
  Claim C8. The workflow transcribed above is the pipeline definition the script writes.
  Its deploy job is executed exactly when the workflow was triggered, the
  build-and-test job concluded with success and \<^verbatim>\<open>github.ref\<close> is
  \<^verbatim>\<open>refs/heads/main\<close>. In particular it is not executed for a push to any other branch
  nor for a pull request.
\<close>

theorem C8_deploy_gate:
  "render_workflow ci_cd = ci_cd_yml \<and>
   (job_executed rn ci_cd ev ''deploy'' \<longleftrightarrow>
      triggered ci_cd ev \<and>
      map_of (run_workflow rn ci_cd ev) ''build-and-test'' = Some Success \<and>
      github_ref ev = ''refs/heads/main'') \<and>
   (b \<noteq> ''main'' \<longrightarrow> \<not> job_executed rn ci_cd (Push b) ''deploy'') \<and>
   \<not> job_executed rn ci_cd (PullRequest n) ''deploy''"
proof -
  have build: "map_of (run_workflow rn ci_cd e) ''build-and-test'' =
      (if triggered ci_cd e then Some (steps_conclusion rn build_and_test) else None)" for e
    by (simp add: run_workflow_def ci_cd_def job_starts_def job_headers)
  have gate: "job_executed rn ci_cd e ''deploy'' \<longleftrightarrow>
      triggered ci_cd e \<and> steps_conclusion rn build_and_test = Success \<and>
      github_ref e = ''refs/heads/main''" for e
    using steps_conclusion_not_skipped [of rn deploy]
    by (cases "steps_conclusion rn deploy")
       (simp_all add: job_executed_def deploy_conclusion)
  show ?thesis
    by (simp add: gate build push_ref pull_request_ref ci_cd_rendered)
qed

text \<open>A push to main in which \<^verbatim>\<open>npm run lhci\<close> exits with status 1.\<close>

theorem C7_audit_non_fatal_witness:
  "step_ok \<lparr>command_status = (\<lambda>j c. if c = ''npm run lhci'' then 1 else 0),
            action_ok = (\<lambda>j a. True)\<rparr> ''build-and-test'' (body lighthouse_ci) \<and>
   steps_conclusion \<lparr>command_status = (\<lambda>j c. if c = ''npm run lhci'' then 1 else 0),
            action_ok = (\<lambda>j a. True)\<rparr> build_and_test = Success \<and>
   map_of (run_workflow \<lparr>command_status = (\<lambda>j c. if c = ''npm run lhci'' then 1 else 0),
            action_ok = (\<lambda>j a. True)\<rparr> ci_cd (Push ''main'')) ''build-and-test'' = Some Success"
proof -
  let ?rn = "\<lparr>command_status = (\<lambda>j c. if c = ''npm run lhci'' then 1 else 0),
              action_ok = (\<lambda>j a. True)\<rparr> :: runner"
  have reached:
    "step_reached ?rn ''build-and-test'' (job_steps build_and_test) ''Lighthouse CI''"
    by (simp add: build_and_test_reached checkout_def use_node_def install_dependencies_def
        check_formatting_def run_linters_def build_site_def)
  have trig: "triggered ci_cd (Push ''main'')"
    by (simp add: triggered_def ci_cd_def)
  show ?thesis
    using C7_audit_non_fatal [of ?rn "Push ''main''"] reached trig by simp
qed

text \<open>
  With every command succeeding, deploy runs for a push to main and not for a push to
  another branch or a pull request; with a failing lint it does not run on main either.
\<close>

theorem C8_deploy_gate_witness:
  "job_executed \<lparr>command_status = (\<lambda>j c. 0), action_ok = (\<lambda>j a. True)\<rparr> ci_cd
     (Push ''main'') ''deploy'' \<and>
   \<not> job_executed \<lparr>command_status = (\<lambda>j c. 0), action_ok = (\<lambda>j a. True)\<rparr> ci_cd
     (Push ''feature'') ''deploy'' \<and>
   \<not> job_executed \<lparr>command_status = (\<lambda>j c. 0), action_ok = (\<lambda>j a. True)\<rparr> ci_cd
     (PullRequest ''7'') ''deploy'' \<and>
   \<not> job_executed \<lparr>command_status = (\<lambda>j c. if c = ''npm run lint'' then 2 else 0),
                     action_ok = (\<lambda>j a. True)\<rparr> ci_cd (Push ''main'') ''deploy''"
proof -
  let ?ok = "\<lparr>command_status = (\<lambda>j c. 0), action_ok = (\<lambda>j a. True)\<rparr> :: runner"
  let ?lint = "\<lparr>command_status = (\<lambda>j c. if c = ''npm run lint'' then 2 else 0),
                action_ok = (\<lambda>j a. True)\<rparr> :: runner"
  have build_ok: "map_of (run_workflow ?ok ci_cd (Push ''main'')) ''build-and-test'' = Some Success"
    by (simp add: run_workflow_def triggered_def ci_cd_def job_starts_def job_headers
        steps_conclusion_def build_and_test_def checkout_def use_node_def
        install_dependencies_def check_formatting_def run_linters_def build_site_def
        lighthouse_ci_def)
  have build_bad: "map_of (run_workflow ?lint ci_cd (Push ''main'')) ''build-and-test'' = Some Failure"
    by (simp add: run_workflow_def triggered_def ci_cd_def job_starts_def job_headers
        steps_conclusion_def build_and_test_def checkout_def use_node_def
        install_dependencies_def check_formatting_def run_linters_def build_site_def
        lighthouse_ci_def)
  have trig: "triggered ci_cd (Push ''main'')"
    by (simp add: triggered_def ci_cd_def)
  show ?thesis
    using C8_deploy_gate [of ?ok "Push ''main''" "''feature''" "''7''"]
      C8_deploy_gate [of ?lint "Push ''main''" "''feature''" "''7''"]
      build_ok build_bad trig
    by (simp add: push_ref)
qed

end
